theory Spec2Isabelle
  imports Main "HOL-Library.Word"
begin

unbundle bit_operations_syntax

section \<open>The XRA1200 driver: 8-bit I2C GPIO expander\<close>

text \<open>
  A shallow embedding of \<^verbatim>\<open>XRA1200.py\<close>, a CircuitPython driver. The module has two
  classes: \<^verbatim>\<open>XRA1200\<close>, which owns the I2C device handle and one-byte shadow copies of
  nine chip registers, and \<^verbatim>\<open>DigitalInOut\<close>, a view of one pin of an \<^verbatim>\<open>XRA1200\<close>.

  The module targets CircuitPython: its reader takes a tab to the next multiple of eight
  columns, so the tab-indented bodies of \<^verbatim>\<open>get_interrupt_enable\<close> and
  \<^verbatim>\<open>get_interrupt_status\<close> are the bodies of those methods, and parameter and return
  annotations are not evaluated.

  Python integers are unbounded and are modelled as \<open>int\<close>; an element of a
  \<^verbatim>\<open>bytearray\<close> is an \<open>8 word\<close>. Every shadow register is a \<^verbatim>\<open>bytearray\<close> of
  length one that is only ever indexed at 0, so it is modelled by its single byte.
  Reading \<^verbatim>\<open>buf[0]\<close> yields the integer \<open>uint\<close> of the byte.
\<close>

type_synonym byte = "8 word"

subsection \<open>Exceptions\<close>

text \<open>
  The exceptions the module can raise: \<^verbatim>\<open>OSError\<close> from a failed I2C transaction,
  \<^verbatim>\<open>ValueError\<close> from the explicit \<^verbatim>\<open>raise\<close> in the direction setter and from a
  negative shift count, \<^verbatim>\<open>AssertionError\<close> from \<^verbatim>\<open>assert\<close>, \<^verbatim>\<open>AttributeError\<close>
  from reading an attribute that does not exist, \<^verbatim>\<open>TypeError\<close> from an operand of the
  wrong type.
\<close>

datatype py_error = OSError | ValueError | AssertionError | AttributeError | TypeError

subsection \<open>Register addresses\<close>

text \<open>
  The module-level constants. The source names start with an underscore, which an
  Isabelle name cannot; the underscore is dropped.
\<close>

definition XRA1200_DEFAULT_I2C_ADDR :: int where "XRA1200_DEFAULT_I2C_ADDR = 0x20"
definition XRA1200_REGISTER_INPUT_PORT :: byte where "XRA1200_REGISTER_INPUT_PORT = 0x00"
definition XRA1200_REGISTER_OUTPUT_PORT :: byte where "XRA1200_REGISTER_OUTPUT_PORT = 0x01"
definition XRA1200_REGISTER_INVERSION :: byte where "XRA1200_REGISTER_INVERSION = 0x02"
definition XRA1200_REGISTER_CONFIGURATION :: byte where "XRA1200_REGISTER_CONFIGURATION = 0x03"
definition XRA1200_REGISTER_PULLUP :: byte where "XRA1200_REGISTER_PULLUP = 0x04"
definition XRA1200_REGISTER_INTERRUPT_ENABLE :: byte where "XRA1200_REGISTER_INTERRUPT_ENABLE = 0x05"
definition XRA1200_REGISTER_THREE_STATE :: byte where "XRA1200_REGISTER_THREE_STATE = 0x06"
definition XRA1200_REGISTER_INTERRUPT_STATUS :: byte where "XRA1200_REGISTER_INTERRUPT_STATUS = 0x07"
definition XRA1200_REGISTER_RISING_EDGE_INTERRUPT :: byte where "XRA1200_REGISTER_RISING_EDGE_INTERRUPT = 0x08"
definition XRA1200_REGISTER_FALLING_EDGE_INTERRUPT :: byte where "XRA1200_REGISTER_FALLING_EDGE_INTERRUPT = 0x09"
definition XRA1200_REGISTER_INPUT_FILTER :: byte where "XRA1200_REGISTER_INPUT_FILTER = 0x0A"

subsection \<open>The I2C bus and the chip behind it\<close>

text \<open>
  The transport (\<^verbatim>\<open>busio.I2C\<close>, \<^verbatim>\<open>adafruit_bus_device.I2CDevice\<close>) and the chip are
  not part of the module; the driver only calls \<^verbatim>\<open>write\<close> and \<^verbatim>\<open>write_then_readinto\<close>
  on the device handle inside a \<^verbatim>\<open>with\<close> block. They are modelled by
  \<^item> \<open>regs\<close>: the chip's register file, indexed by register address;
  \<^item> \<open>log\<close>: every transaction the driver has issued, oldest first, with the bytes
    sent (a transaction that fails is logged as well: it was issued);
  \<^item> \<open>faults\<close>: the outcomes of the coming transactions, one entry consumed by each;
    \<open>True\<close> makes the transaction raise \<^verbatim>\<open>OSError\<close> and leaves the chip as it was;
    once the list is used up every transaction succeeds.
  Taking and releasing the bus lock (\<^verbatim>\<open>with self.i2c_device as i2c\<close>) changes nothing
  that the driver can see and is not represented.
\<close>

datatype i2c_event =
  I2C_write "byte list"
| I2C_write_then_readinto "byte list" nat

record busio_I2C =
  regs :: "byte \<Rightarrow> byte"
  log :: "i2c_event list"
  faults :: "bool list"

record I2CDevice =
  i2c :: busio_I2C
  device_address :: int

text \<open>Whether the next transaction on the bus fails.\<close>

fun next_fails :: "bool list \<Rightarrow> bool" where
  "next_fails (True # fs) = True"
| "next_fails fs = False"

text \<open>
  The chip's reaction to a completed transaction. A two-byte write \<open>[r, v]\<close> stores \<open>v\<close>
  in register \<open>r\<close>. A one-byte write \<open>[r]\<close> followed by a read returns register \<open>r\<close>.
  The chip is hardware, not code of the driver. Its INTERRUPT_STATUS register (0x07)
  is latched and cleared by being read, so reading that register returns it and leaves
  it zero. Every other read leaves the registers as they are.
\<close>

definition chip_write :: "byte list \<Rightarrow> (byte \<Rightarrow> byte) \<Rightarrow> (byte \<Rightarrow> byte)" where
  "chip_write buf rs = (case buf of [r, v] \<Rightarrow> rs(r := v) | _ \<Rightarrow> rs)"

definition chip_read :: "byte list \<Rightarrow> (byte \<Rightarrow> byte) \<Rightarrow> byte \<times> (byte \<Rightarrow> byte)" where
  "chip_read buf rs =
     (case buf of
        [r] \<Rightarrow> (rs r, if r = XRA1200_REGISTER_INTERRUPT_STATUS then rs(r := 0) else rs)
      | _ \<Rightarrow> (0, rs))"

text \<open>\<^verbatim>\<open>I2CDevice.write(buf)\<close> and \<^verbatim>\<open>I2CDevice.write_then_readinto(out, in)\<close> with a
  one-byte \<^verbatim>\<open>in\<close> buffer; the latter returns the byte read.\<close>

definition I2CDevice_write :: "byte list \<Rightarrow> I2CDevice \<Rightarrow> (py_error + unit) \<times> I2CDevice" where
  "I2CDevice_write buf dev =
     (let b = i2c dev;
          b1 = b\<lparr>log := log b @ [I2C_write buf], faults := tl (faults b)\<rparr>
      in if next_fails (faults b) then (Inl OSError, dev\<lparr>i2c := b1\<rparr>)
         else (Inr (), dev\<lparr>i2c := b1\<lparr>regs := chip_write buf (regs b)\<rparr>\<rparr>))"

definition I2CDevice_write_then_readinto ::
    "byte list \<Rightarrow> I2CDevice \<Rightarrow> (py_error + byte) \<times> I2CDevice" where
  "I2CDevice_write_then_readinto buf dev =
     (let b = i2c dev;
          b1 = b\<lparr>log := log b @ [I2C_write_then_readinto buf 1], faults := tl (faults b)\<rparr>
      in if next_fails (faults b) then (Inl OSError, dev\<lparr>i2c := b1\<rparr>)
         else (case chip_read buf (regs b) of
                 (v, rs) \<Rightarrow> (Inr v, dev\<lparr>i2c := b1\<lparr>regs := rs\<rparr>\<rparr>)))"

subsection \<open>The controller object and its methods\<close>

text \<open>
  The attributes \<^verbatim>\<open>__init__\<close> creates. A leading underscore of the source is written
  \<open>priv_\<close>: \<open>priv_output\<close> is \<^verbatim>\<open>self._output\<close>.
\<close>

record XRA1200 =
  i2c_device :: I2CDevice
  priv_p :: bool
  priv_output :: byte
  priv_inversion :: byte
  priv_configuration :: byte
  priv_pullup :: byte
  priv_interrupt_enable :: byte
  priv_three_state :: byte
  priv_rising_edge_interrupt :: byte
  priv_falling_edge_interrupt :: byte
  priv_input_filter :: byte

text \<open>
  A method takes the object and returns its result, or the exception it raised, together
  with the object as the method left it: what a method stored before it raised stays
  stored.
\<close>

type_synonym 'a action = "XRA1200 \<Rightarrow> (py_error + 'a) \<times> XRA1200"

definition returns :: "'a \<Rightarrow> 'a action" where
  "returns v self = (Inr v, self)"

definition raises :: "py_error \<Rightarrow> 'a action" where
  "raises e self = (Inl e, self)"

text \<open>Sequencing: the second part runs only if the first raised nothing.\<close>

definition seq :: "'a action \<Rightarrow> ('a \<Rightarrow> 'b action) \<Rightarrow> 'b action" where
  "seq f g self = (case f self of (Inl e, self1) \<Rightarrow> (Inl e, self1) | (Inr a, self1) \<Rightarrow> g a self1)"

text \<open>A block of statements: they run in order, and the first exception leaves the block.\<close>

fun block :: "unit action list \<Rightarrow> unit action" where
  "block [] = returns ()"
| "block (s # ss) = seq s (\<lambda>_. block ss)"

text \<open>\<^verbatim>\<open>with self.i2c_device as i2c: i2c.write(bytearray(buf))\<close>\<close>

definition i2c_write :: "byte list \<Rightarrow> unit action" where
  "i2c_write buf self =
     (case I2CDevice_write buf (i2c_device self) of
        (r, dev) \<Rightarrow> (r, self\<lparr>i2c_device := dev\<rparr>))"

text \<open>\<^verbatim>\<open>with self.i2c_device as i2c: i2c.write_then_readinto(bytearray(buf), b)\<close>,
  returning the byte that was read into the one-byte buffer \<^verbatim>\<open>b\<close>.\<close>

definition i2c_write_then_readinto :: "byte list \<Rightarrow> byte action" where
  "i2c_write_then_readinto buf self =
     (case I2CDevice_write_then_readinto buf (i2c_device self) of
        (r, dev) \<Rightarrow> (r, self\<lparr>i2c_device := dev\<rparr>))"

text \<open>
  \<^verbatim>\<open>XRA1200.__init__(self, i2c, address, reset, p)\<close>. On an exception the constructor
  returns no object; the second component is then the half-built object, which shows
  what was sent on the bus up to that point. Creating the device handle
  (\<^verbatim>\<open>I2CDevice(i2c, address)\<close>) is the transport's business; the log starts with the
  transactions the constructor itself issues on the handle. The ten writes share one
  \<^verbatim>\<open>with\<close> block and the nine reads another, so the first failure ends the constructor.
\<close>

definition XRA1200_init :: "busio_I2C \<Rightarrow> int \<Rightarrow> bool \<Rightarrow> bool \<Rightarrow> (py_error + unit) \<times> XRA1200" where
  "XRA1200_init bus address reset p =
     block
       ((if reset then
           [i2c_write [XRA1200_REGISTER_CONFIGURATION, 0xFF],
            i2c_write [XRA1200_REGISTER_INVERSION, 0x00],
            i2c_write [XRA1200_REGISTER_OUTPUT_PORT, 0xFF],
            (if p then i2c_write [XRA1200_REGISTER_PULLUP, 0xFF]
             else i2c_write [XRA1200_REGISTER_PULLUP, 0x00]),
            i2c_write [XRA1200_REGISTER_INTERRUPT_ENABLE, 0x00],
            i2c_write [XRA1200_REGISTER_THREE_STATE, 0x00],
            i2c_write [XRA1200_REGISTER_INTERRUPT_STATUS, 0x00],
            i2c_write [XRA1200_REGISTER_RISING_EDGE_INTERRUPT, 0x00],
            i2c_write [XRA1200_REGISTER_FALLING_EDGE_INTERRUPT, 0x00],
            i2c_write [XRA1200_REGISTER_INPUT_FILTER, 0xFF]]
         else []) @
        [seq (i2c_write_then_readinto [XRA1200_REGISTER_OUTPUT_PORT])
           (\<lambda>v self. returns () (self\<lparr>priv_output := v\<rparr>)),
         seq (i2c_write_then_readinto [XRA1200_REGISTER_INVERSION])
           (\<lambda>v self. returns () (self\<lparr>priv_inversion := v\<rparr>)),
         seq (i2c_write_then_readinto [XRA1200_REGISTER_CONFIGURATION])
           (\<lambda>v self. returns () (self\<lparr>priv_configuration := v\<rparr>)),
         seq (i2c_write_then_readinto [XRA1200_REGISTER_PULLUP])
           (\<lambda>v self. returns () (self\<lparr>priv_pullup := v\<rparr>)),
         seq (i2c_write_then_readinto [XRA1200_REGISTER_INTERRUPT_ENABLE])
           (\<lambda>v self. returns () (self\<lparr>priv_interrupt_enable := v\<rparr>)),
         seq (i2c_write_then_readinto [XRA1200_REGISTER_THREE_STATE])
           (\<lambda>v self. returns () (self\<lparr>priv_three_state := v\<rparr>)),
         seq (i2c_write_then_readinto [XRA1200_REGISTER_RISING_EDGE_INTERRUPT])
           (\<lambda>v self. returns () (self\<lparr>priv_rising_edge_interrupt := v\<rparr>)),
         seq (i2c_write_then_readinto [XRA1200_REGISTER_FALLING_EDGE_INTERRUPT])
           (\<lambda>v self. returns () (self\<lparr>priv_falling_edge_interrupt := v\<rparr>)),
         seq (i2c_write_then_readinto [XRA1200_REGISTER_INPUT_FILTER])
           (\<lambda>v self. returns () (self\<lparr>priv_input_filter := v\<rparr>))])
       \<lparr>i2c_device = \<lparr>i2c = bus, device_address = address\<rparr>,
        priv_p = p,
        priv_output = 0, priv_inversion = 0, priv_configuration = 0, priv_pullup = 0,
        priv_interrupt_enable = 0, priv_three_state = 0, priv_rising_edge_interrupt = 0,
        priv_falling_edge_interrupt = 0, priv_input_filter = 0\<rparr>"

definition read_gpio :: "int action" where
  "read_gpio = seq (i2c_write_then_readinto [XRA1200_REGISTER_INPUT_PORT]) (\<lambda>v. returns (uint v))"

text \<open>
  The nine setters. Each stores \<^verbatim>\<open>val & 0xFF\<close> in its shadow byte first and then
  sends the register address and the stored byte.
\<close>

definition write_gpio :: "int \<Rightarrow> unit action" where
  "write_gpio val self =
     (let self1 = self\<lparr>priv_output := word_of_int (val AND 0xFF)\<rparr>
      in i2c_write [XRA1200_REGISTER_OUTPUT_PORT, priv_output self1] self1)"

definition set_iodir :: "int \<Rightarrow> unit action" where
  "set_iodir val self =
     (let self1 = self\<lparr>priv_configuration := word_of_int (val AND 0xFF)\<rparr>
      in i2c_write [XRA1200_REGISTER_CONFIGURATION, priv_configuration self1] self1)"

definition get_iodir :: "int action" where
  "get_iodir self = returns (uint (priv_configuration self)) self"

definition get_inv :: "int action" where
  "get_inv self = returns (uint (priv_inversion self)) self"

definition set_inv :: "int \<Rightarrow> unit action" where
  "set_inv val self =
     (let self1 = self\<lparr>priv_inversion := word_of_int (val AND 0xFF)\<rparr>
      in i2c_write [XRA1200_REGISTER_INVERSION, priv_inversion self1] self1)"

definition get_pullup :: "int action" where
  "get_pullup self = returns (uint (priv_pullup self)) self"

definition set_pullup :: "int \<Rightarrow> unit action" where
  "set_pullup val self =
     (let self1 = self\<lparr>priv_pullup := word_of_int (val AND 0xFF)\<rparr>
      in i2c_write [XRA1200_REGISTER_PULLUP, priv_pullup self1] self1)"

definition get_interrupt_enable :: "int action" where
  "get_interrupt_enable self = returns (uint (priv_interrupt_enable self)) self"

definition set_interrupt_enable :: "int \<Rightarrow> unit action" where
  "set_interrupt_enable val self =
     (let self1 = self\<lparr>priv_interrupt_enable := word_of_int (val AND 0xFF)\<rparr>
      in i2c_write [XRA1200_REGISTER_INTERRUPT_ENABLE, priv_interrupt_enable self1] self1)"

definition get_three_state :: "int action" where
  "get_three_state self = returns (uint (priv_three_state self)) self"

definition set_three_state :: "int \<Rightarrow> unit action" where
  "set_three_state val self =
     (let self1 = self\<lparr>priv_three_state := word_of_int (val AND 0xFF)\<rparr>
      in i2c_write [XRA1200_REGISTER_THREE_STATE, priv_three_state self1] self1)"

definition get_interrupt_status :: "int action" where
  "get_interrupt_status =
     seq (i2c_write_then_readinto [XRA1200_REGISTER_INTERRUPT_STATUS]) (\<lambda>v. returns (uint v))"

definition get_rising_edge_interrupt :: "int action" where
  "get_rising_edge_interrupt self = returns (uint (priv_rising_edge_interrupt self)) self"

definition set_rising_edge_interrupt :: "int \<Rightarrow> unit action" where
  "set_rising_edge_interrupt val self =
     (let self1 = self\<lparr>priv_rising_edge_interrupt := word_of_int (val AND 0xFF)\<rparr>
      in i2c_write [XRA1200_REGISTER_RISING_EDGE_INTERRUPT, priv_rising_edge_interrupt self1] self1)"

definition get_falling_edge_interrupt :: "int action" where
  "get_falling_edge_interrupt self = returns (uint (priv_falling_edge_interrupt self)) self"

definition set_falling_edge_interrupt :: "int \<Rightarrow> unit action" where
  "set_falling_edge_interrupt val self =
     (let self1 = self\<lparr>priv_falling_edge_interrupt := word_of_int (val AND 0xFF)\<rparr>
      in i2c_write [XRA1200_REGISTER_FALLING_EDGE_INTERRUPT, priv_falling_edge_interrupt self1] self1)"

definition get_input_filter :: "int action" where
  "get_input_filter self = returns (uint (priv_input_filter self)) self"

definition set_input_filter :: "int \<Rightarrow> unit action" where
  "set_input_filter val self =
     (let self1 = self\<lparr>priv_input_filter := word_of_int (val AND 0xFF)\<rparr>
      in i2c_write [XRA1200_REGISTER_INPUT_FILTER, priv_input_filter self1] self1)"

text \<open>
  \<^verbatim>\<open>get_pin(pin)\<close>: the assertion guards the range; the handle holds the pin number, and
  its \<^verbatim>\<open>_xra\<close> reference is the controller the handle's methods are applied to.
\<close>

record DigitalInOut =
  priv_pin :: int

definition DigitalInOut_init :: "int \<Rightarrow> DigitalInOut" where
  "DigitalInOut_init pin_number = \<lparr>priv_pin = pin_number\<rparr>"

definition get_pin :: "int \<Rightarrow> DigitalInOut action" where
  "get_pin pin =
     (if 0 \<le> pin \<and> pin \<le> 7 then returns (DigitalInOut_init pin) else raises AssertionError)"

subsection \<open>Python operators and attribute lookup\<close>

text \<open>
  \<^verbatim>\<open>a << n\<close> and \<^verbatim>\<open>a >> n\<close> on integers raise \<^verbatim>\<open>ValueError\<close> for a negative count;
  \<^verbatim>\<open>>>\<close> rounds down, as \<open>drop_bit\<close> on \<open>int\<close> does.
\<close>

definition py_lshift :: "int \<Rightarrow> int \<Rightarrow> py_error + int" where
  "py_lshift a n = (if n < 0 then Inl ValueError else Inr (push_bit (nat n) a))"

definition py_rshift :: "int \<Rightarrow> int \<Rightarrow> py_error + int" where
  "py_rshift a n = (if n < 0 then Inl ValueError else Inr (drop_bit (nat n) a))"

definition lift :: "py_error + 'a \<Rightarrow> 'a action" where
  "lift r = (case r of Inl e \<Rightarrow> raises e | Inr v \<Rightarrow> returns v)"

text \<open>
  Attribute lookup on an \<^verbatim>\<open>XRA1200\<close> instance: the instance attributes are the ones
  \<^verbatim>\<open>__init__\<close> assigns, the class attributes are the methods the class body defines.
  A name in neither raises \<^verbatim>\<open>AttributeError\<close>.
\<close>

datatype py_value = PyInt int | PyBool bool | PyBytearray "byte list" | PyObject | PyMethod

definition XRA1200_instance_dict :: "XRA1200 \<Rightarrow> (string \<times> py_value) list" where
  "XRA1200_instance_dict self =
     [(''i2c_device'', PyObject),
      (''_p'', PyBool (priv_p self)),
      (''_output'', PyBytearray [priv_output self]),
      (''_inversion'', PyBytearray [priv_inversion self]),
      (''_configuration'', PyBytearray [priv_configuration self]),
      (''_pullup'', PyBytearray [priv_pullup self]),
      (''_interrupt_enable'', PyBytearray [priv_interrupt_enable self]),
      (''_three_state'', PyBytearray [priv_three_state self]),
      (''_rising_edge_interrupt'', PyBytearray [priv_rising_edge_interrupt self]),
      (''_falling_edge_interrupt'', PyBytearray [priv_falling_edge_interrupt self]),
      (''_input_filter'', PyBytearray [priv_input_filter self])]"

definition XRA1200_class_dict :: "(string \<times> py_value) list" where
  "XRA1200_class_dict =
     map (\<lambda>name. (name, PyMethod))
       [''__init__'', ''read_gpio'', ''write_gpio'', ''set_iodir'', ''get_iodir'',
        ''get_inv'', ''set_inv'', ''get_pullup'', ''set_pullup'',
        ''get_interrupt_enable'', ''set_interrupt_enable'',
        ''get_three_state'', ''set_three_state'', ''get_interrupt_status'',
        ''get_rising_edge_interrupt'', ''set_rising_edge_interrupt'',
        ''get_falling_edge_interrupt'', ''set_falling_edge_interrupt'',
        ''get_input_filter'', ''set_input_filter'',
        ''get_pin'', ''write_pin'', ''read_pin'']"

definition XRA1200_getattr :: "string \<Rightarrow> py_value action" where
  "XRA1200_getattr name self =
     (case map_of (XRA1200_instance_dict self @ XRA1200_class_dict) name of
        Some v \<Rightarrow> returns v self
      | None \<Rightarrow> raises AttributeError self)"

text \<open>\<^verbatim>\<open>x | m\<close> and \<^verbatim>\<open>x & m\<close> with an integer \<^verbatim>\<open>m\<close>: defined when \<^verbatim>\<open>x\<close> is an integer
  or a boolean (which counts as 0 or 1), a \<^verbatim>\<open>TypeError\<close> otherwise.\<close>

fun py_or :: "py_value \<Rightarrow> int \<Rightarrow> py_error + int" where
  "py_or (PyInt n) m = Inr (n OR m)"
| "py_or (PyBool b) m = Inr (of_bool b OR m)"
| "py_or x m = Inl TypeError"

fun py_and :: "py_value \<Rightarrow> int \<Rightarrow> py_error + int" where
  "py_and (PyInt n) m = Inr (n AND m)"
| "py_and (PyBool b) m = Inr (of_bool b AND m)"
| "py_and x m = Inl TypeError"

text \<open>\<^verbatim>\<open>write_pin(pin, val)\<close> reads \<^verbatim>\<open>self.output\<close>, then shifts, then calls
  \<^verbatim>\<open>write_gpio\<close>.\<close>

definition write_pin :: "int \<Rightarrow> bool \<Rightarrow> unit action" where
  "write_pin pin val =
     (if val then
        seq (XRA1200_getattr ''output'') (\<lambda>out.
        seq (lift (py_lshift 1 pin)) (\<lambda>m.
        seq (lift (py_or out m)) write_gpio))
      else
        seq (XRA1200_getattr ''output'') (\<lambda>out.
        seq (lift (py_lshift 1 pin)) (\<lambda>m.
        seq (lift (py_and out (NOT m))) write_gpio)))"

subsection \<open>The pin handle\<close>

text \<open>
  \<^verbatim>\<open>digitalio.Direction\<close> has the two members \<^verbatim>\<open>INPUT\<close> and \<^verbatim>\<open>OUTPUT\<close>. The direction
  setter accepts any Python object; \<open>Other_object\<close> stands for every object that is
  neither member.
\<close>

datatype Direction = INPUT | OUTPUT

datatype py_object = Direction_object Direction | Other_object

text \<open>
  The methods of a handle work on the controller \<^verbatim>\<open>self._xra\<close>, which is the state
  they are applied to here. \<^verbatim>\<open>self._xra._output[0]\<close> reads the shadow byte directly.
\<close>

definition switch_to_output :: "DigitalInOut \<Rightarrow> bool \<Rightarrow> unit action" where
  "switch_to_output d initial_value =
     seq (if initial_value then
            seq (lift (py_lshift 1 (priv_pin d)))
              (\<lambda>m self. write_gpio (uint (priv_output self) OR m) self)
          else
            seq (lift (py_lshift 1 (priv_pin d)))
              (\<lambda>m self. write_gpio (uint (priv_output self) AND NOT m) self))
       (\<lambda>_. seq (lift (py_lshift 1 (priv_pin d))) (\<lambda>m self.
             seq (lift (py_rshift (uint (priv_configuration self) AND m) (priv_pin d))) (\<lambda>b.
             seq (lift (py_lshift 1 (priv_pin d))) (\<lambda>m'.
             set_iodir (b AND NOT m'))) self))"

definition switch_to_input :: "DigitalInOut \<Rightarrow> unit action" where
  "switch_to_input d =
     seq (lift (py_lshift 1 (priv_pin d))) (\<lambda>m self.
     seq (lift (py_rshift (uint (priv_configuration self) AND m) (priv_pin d))) (\<lambda>b.
     seq (lift (py_lshift 1 (priv_pin d))) (\<lambda>m'.
     set_iodir (b OR m'))) self)"

text \<open>The property \<^verbatim>\<open>direction\<close>: getter and setter. A non-zero integer is true.\<close>

definition direction :: "DigitalInOut \<Rightarrow> Direction action" where
  "direction d =
     seq (lift (py_lshift 1 (priv_pin d))) (\<lambda>m self.
     seq (lift (py_rshift (uint (priv_configuration self) AND m) (priv_pin d))) (\<lambda>b.
     if b \<noteq> 0 then returns INPUT else returns OUTPUT) self)"

definition direction_setter :: "DigitalInOut \<Rightarrow> py_object \<Rightarrow> unit action" where
  "direction_setter d val =
     (if val = Direction_object INPUT then
        seq get_iodir (\<lambda>c. seq (lift (py_lshift 1 (priv_pin d))) (\<lambda>m. set_iodir (c OR m)))
      else if val = Direction_object OUTPUT then
        seq get_iodir (\<lambda>c. seq (lift (py_lshift 1 (priv_pin d))) (\<lambda>m. set_iodir (c AND NOT m)))
      else raises ValueError)"

text \<open>The property \<^verbatim>\<open>pullup\<close>. In \<^verbatim>\<open>a & m > 0\<close> the \<^verbatim>\<open>&\<close> binds tighter.\<close>

definition pullup :: "DigitalInOut \<Rightarrow> bool action" where
  "pullup d =
     seq (lift (py_lshift 1 (priv_pin d))) (\<lambda>m self.
     returns (uint (priv_pullup self) AND m > 0) self)"

definition pullup_setter :: "DigitalInOut \<Rightarrow> bool \<Rightarrow> unit action" where
  "pullup_setter d val =
     (if val then
        seq get_pullup (\<lambda>c. seq (lift (py_lshift 1 (priv_pin d))) (\<lambda>m. set_pullup (c OR m)))
      else
        seq get_pullup (\<lambda>c. seq (lift (py_lshift 1 (priv_pin d))) (\<lambda>m. set_pullup (c AND NOT m))))"

text \<open>The read-only property \<^verbatim>\<open>interrupt_status\<close>: the register is read first, then
  the mask is computed.\<close>

definition interrupt_status :: "DigitalInOut \<Rightarrow> bool action" where
  "interrupt_status d =
     seq get_interrupt_status (\<lambda>v.
     seq (lift (py_lshift 1 (priv_pin d))) (\<lambda>m.
     returns (v AND m > 0)))"

subsection \<open>Concrete buses and controllers\<close>

text \<open>
  A chip whose registers are all zero on a bus that has seen no traffic; \<open>nack_at n\<close>
  is the same bus on which the transaction number \<open>n\<close> (counting from 0) is not
  acknowledged.
\<close>

definition quiet_bus :: busio_I2C where
  "quiet_bus = \<lparr>regs = (\<lambda>_. 0), log = [], faults = []\<rparr>"

definition nack_at :: "nat \<Rightarrow> busio_I2C" where
  "nack_at n = \<lparr>regs = (\<lambda>_. 0), log = [], faults = replicate n False @ [True]\<rparr>"

text \<open>The transactions a controller has issued, and the chip's registers behind it.\<close>

definition traffic :: "XRA1200 \<Rightarrow> i2c_event list" where
  "traffic self = log (i2c (i2c_device self))"

definition chip :: "XRA1200 \<Rightarrow> byte \<Rightarrow> byte" where
  "chip self = regs (i2c (i2c_device self))"

definition pending_faults :: "XRA1200 \<Rightarrow> bool list" where
  "pending_faults self = faults (i2c (i2c_device self))"

text \<open>
  Two controllers as the constructor leaves them with \<^verbatim>\<open>reset=True\<close> and the default
  address on the all-zero chip: one on a bus without faults, one on a bus that fails
  the first transaction after the nineteen of the constructor.
\<close>

definition controller_after_reset :: XRA1200 where
  "controller_after_reset = snd (XRA1200_init quiet_bus XRA1200_DEFAULT_I2C_ADDR True False)"

definition controller_before_nack :: XRA1200 where
  "controller_before_nack = snd (XRA1200_init (nack_at 19) XRA1200_DEFAULT_I2C_ADDR True False)"

text \<open>
  A chip that has latched interrupts on pins 3 and 5 (INTERRUPT_STATUS = 0x28), and the
  controller constructed on it without reset.
\<close>

definition latched_bus :: busio_I2C where
  "latched_bus =
     \<lparr>regs = (\<lambda>_. 0)(XRA1200_REGISTER_INTERRUPT_STATUS := 0x28), log = [], faults = []\<rparr>"

definition controller_with_latched_interrupts :: XRA1200 where
  "controller_with_latched_interrupts =
     snd (XRA1200_init latched_bus XRA1200_DEFAULT_I2C_ADDR False False)"

section \<open>Properties\<close>

lemmas register_defs =
  XRA1200_REGISTER_INPUT_PORT_def XRA1200_REGISTER_OUTPUT_PORT_def
  XRA1200_REGISTER_INVERSION_def XRA1200_REGISTER_CONFIGURATION_def
  XRA1200_REGISTER_PULLUP_def XRA1200_REGISTER_INTERRUPT_ENABLE_def
  XRA1200_REGISTER_THREE_STATE_def XRA1200_REGISTER_INTERRUPT_STATUS_def
  XRA1200_REGISTER_RISING_EDGE_INTERRUPT_def XRA1200_REGISTER_FALLING_EDGE_INTERRUPT_def
  XRA1200_REGISTER_INPUT_FILTER_def


lemmas action_defs =
  returns_def raises_def seq_def lift_def i2c_write_def i2c_write_then_readinto_def
  I2CDevice_write_def I2CDevice_write_then_readinto_def
  traffic_def chip_def pending_faults_def

subsection \<open>Bytes and masks\<close>

text \<open>
  What the Python expressions of the pin handle compute on a byte \<open>w\<close> read from a
  shadow register, for the mask \<^verbatim>\<open>1 << n\<close>. Storing \<^verbatim>\<open>val & 0xFF\<close> in a byte keeps the
  low eight bits of \<^verbatim>\<open>val\<close>.
\<close>

lemma int_255_mask: "(0xFF::int) = mask 8"
  by (simp add: mask_eq_exp_minus_1)

lemma byte_of_and_255: "(word_of_int (x AND 0xFF) :: byte) = word_of_int x"
  unfolding int_255_mask by (rule bit_word_eqI) (simp add: bit_simps)

lemma or_mask_byte:
  fixes w :: byte
  assumes "n < 8"
  shows "word_of_int ((uint w OR push_bit n 1) AND 0xFF) = set_bit n w"
  unfolding byte_of_and_255 using assms
  by - (rule bit_word_eqI, auto simp add: bit_simps)

lemma and_not_mask_byte:
  fixes w :: byte
  shows "word_of_int ((uint w AND NOT (push_bit n 1)) AND 0xFF) = unset_bit n w"
  unfolding byte_of_and_255 by (rule bit_word_eqI, auto simp add: bit_simps)

lemma pick_bit:
  fixes w :: byte
  shows "drop_bit n (uint w AND push_bit n 1) = of_bool (bit w n)"
  by (rule bit_eqI) (auto simp add: bit_simps)

lemma test_bit_pos:
  fixes w :: byte
  shows "(uint w AND push_bit n 1 > 0) = bit w n"
proof -
  have "uint w AND push_bit n 1 = push_bit n (of_bool (bit w n))"
    by (rule bit_eqI) (auto simp add: bit_simps)
  then show ?thesis by (simp add: push_bit_eq_mult)
qed

text \<open>The same facts with the mask written \<open>2 ^ n\<close>, the form the simplifier gives
  \<^verbatim>\<open>1 << n\<close>.\<close>

lemma or_bit_byte:
  fixes w :: byte
  assumes "n < 8"
  shows "word_of_int ((uint w OR 2 ^ n) AND 0xFF) = set_bit n w"
  using or_mask_byte [OF assms, of w] by simp

lemma and_not_bit_byte:
  fixes w :: byte
  shows "word_of_int ((uint w AND NOT (2 ^ n)) AND 0xFF) = unset_bit n w"
  using and_not_mask_byte [of w n] by simp

lemma pick_bit_split:
  fixes w :: byte
  shows "drop_bit n (uint w) AND drop_bit n (2 ^ n) = of_bool (bit w n)"
  using pick_bit [of n w] by simp

lemma test_bit_pos_power:
  fixes w :: byte
  shows "(uint w AND 2 ^ n > 0) = bit w n"
  using test_bit_pos [of w n] by simp

lemma flag_and_not_bit:
  "(word_of_int ((of_bool b AND NOT (2 ^ n)) AND 0xFF) :: byte) = unset_bit n (of_bool b)"
  unfolding byte_of_and_255 by (rule bit_word_eqI, auto simp add: bit_simps)

lemma flag_or_bit:
  "n < 8 \<Longrightarrow>
   (word_of_int ((of_bool b OR 2 ^ n) AND 0xFF) :: byte) = set_bit n (of_bool b)"
  unfolding byte_of_and_255 by (rule bit_word_eqI, auto simp add: bit_simps)

lemma py_lshift_ok: "0 \<le> n \<Longrightarrow> py_lshift a n = Inr (push_bit (nat n) a)"
  by (simp add: py_lshift_def)

lemma py_rshift_ok: "0 \<le> n \<Longrightarrow> py_rshift a n = Inr (drop_bit (nat n) a)"
  by (simp add: py_rshift_def)

subsection \<open>The concrete controllers\<close>

lemma controller_after_reset_fields:
  "pending_faults controller_after_reset = [] \<and>
   priv_output controller_after_reset = 0xFF \<and>
   priv_configuration controller_after_reset = 0xFF \<and>
   priv_pullup controller_after_reset = 0x00"
  by code_simp

lemma controller_with_latched_interrupts_fields:
  "pending_faults controller_with_latched_interrupts = [] \<and>
   chip controller_with_latched_interrupts XRA1200_REGISTER_INTERRUPT_STATUS = 0x28"
  by code_simp

lemma pin_3: "0 \<le> priv_pin (DigitalInOut_init 3) \<and> priv_pin (DigitalInOut_init 3) \<le> 7"
  by (simp add: DigitalInOut_init_def)

subsection \<open>The register setters\<close>

text \<open>
  Each setter, on any controller and any integer: the shadow byte afterwards, the one
  transaction issued, and when the call raises.
\<close>

lemma write_gpio_effect:
  "priv_output (snd (write_gpio val self)) = word_of_int (val AND 0xFF) \<and>
   traffic (snd (write_gpio val self)) =
     traffic self @ [I2C_write [XRA1200_REGISTER_OUTPUT_PORT, word_of_int (val AND 0xFF)]] \<and>
   (fst (write_gpio val self) = Inl OSError) = next_fails (pending_faults self)"
  by (simp add: write_gpio_def action_defs Let_def)

lemma set_iodir_effect:
  "priv_configuration (snd (set_iodir val self)) = word_of_int (val AND 0xFF) \<and>
   traffic (snd (set_iodir val self)) =
     traffic self @ [I2C_write [XRA1200_REGISTER_CONFIGURATION, word_of_int (val AND 0xFF)]] \<and>
   (fst (set_iodir val self) = Inl OSError) = next_fails (pending_faults self)"
  by (simp add: set_iodir_def action_defs Let_def)

lemma set_inv_effect:
  "priv_inversion (snd (set_inv val self)) = word_of_int (val AND 0xFF) \<and>
   traffic (snd (set_inv val self)) =
     traffic self @ [I2C_write [XRA1200_REGISTER_INVERSION, word_of_int (val AND 0xFF)]] \<and>
   (fst (set_inv val self) = Inl OSError) = next_fails (pending_faults self)"
  by (simp add: set_inv_def action_defs Let_def)

lemma set_pullup_effect:
  "priv_pullup (snd (set_pullup val self)) = word_of_int (val AND 0xFF) \<and>
   traffic (snd (set_pullup val self)) =
     traffic self @ [I2C_write [XRA1200_REGISTER_PULLUP, word_of_int (val AND 0xFF)]] \<and>
   (fst (set_pullup val self) = Inl OSError) = next_fails (pending_faults self)"
  by (simp add: set_pullup_def action_defs Let_def)

lemma set_interrupt_enable_effect:
  "priv_interrupt_enable (snd (set_interrupt_enable val self)) = word_of_int (val AND 0xFF) \<and>
   traffic (snd (set_interrupt_enable val self)) =
     traffic self @ [I2C_write [XRA1200_REGISTER_INTERRUPT_ENABLE, word_of_int (val AND 0xFF)]] \<and>
   (fst (set_interrupt_enable val self) = Inl OSError) = next_fails (pending_faults self)"
  by (simp add: set_interrupt_enable_def action_defs Let_def)

lemma set_three_state_effect:
  "priv_three_state (snd (set_three_state val self)) = word_of_int (val AND 0xFF) \<and>
   traffic (snd (set_three_state val self)) =
     traffic self @ [I2C_write [XRA1200_REGISTER_THREE_STATE, word_of_int (val AND 0xFF)]] \<and>
   (fst (set_three_state val self) = Inl OSError) = next_fails (pending_faults self)"
  by (simp add: set_three_state_def action_defs Let_def)

lemma set_rising_edge_interrupt_effect:
  "priv_rising_edge_interrupt (snd (set_rising_edge_interrupt val self)) =
     word_of_int (val AND 0xFF) \<and>
   traffic (snd (set_rising_edge_interrupt val self)) =
     traffic self @
     [I2C_write [XRA1200_REGISTER_RISING_EDGE_INTERRUPT, word_of_int (val AND 0xFF)]] \<and>
   (fst (set_rising_edge_interrupt val self) = Inl OSError) = next_fails (pending_faults self)"
  by (simp add: set_rising_edge_interrupt_def action_defs Let_def)

lemma set_falling_edge_interrupt_effect:
  "priv_falling_edge_interrupt (snd (set_falling_edge_interrupt val self)) =
     word_of_int (val AND 0xFF) \<and>
   traffic (snd (set_falling_edge_interrupt val self)) =
     traffic self @
     [I2C_write [XRA1200_REGISTER_FALLING_EDGE_INTERRUPT, word_of_int (val AND 0xFF)]] \<and>
   (fst (set_falling_edge_interrupt val self) = Inl OSError) = next_fails (pending_faults self)"
  by (simp add: set_falling_edge_interrupt_def action_defs Let_def)

lemma set_input_filter_effect:
  "priv_input_filter (snd (set_input_filter val self)) = word_of_int (val AND 0xFF) \<and>
   traffic (snd (set_input_filter val self)) =
     traffic self @ [I2C_write [XRA1200_REGISTER_INPUT_FILTER, word_of_int (val AND 0xFF)]] \<and>
   (fst (set_input_filter val self) = Inl OSError) = next_fails (pending_faults self)"
  by (simp add: set_input_filter_def action_defs Let_def)

text \<open>
  C1, as the code has it: every register setter stores \<^verbatim>\<open>val & 0xFF\<close> in its shadow
  byte before it issues its single I2C write. After the call the shadow byte holds
  \<^verbatim>\<open>val & 0xFF\<close> whether the write succeeded or raised; the call raises \<^verbatim>\<open>OSError\<close>
  exactly when the bus fails the write. The shadow byte is therefore not kept at its
  pre-call value when the write fails.
\<close>

theorem setters_store_before_write:
  "(priv_output (snd (write_gpio val self)) = word_of_int (val AND 0xFF) \<and>
    (fst (write_gpio val self) = Inl OSError) = next_fails (pending_faults self)) \<and>
   (priv_configuration (snd (set_iodir val self)) = word_of_int (val AND 0xFF) \<and>
    (fst (set_iodir val self) = Inl OSError) = next_fails (pending_faults self)) \<and>
   (priv_inversion (snd (set_inv val self)) = word_of_int (val AND 0xFF) \<and>
    (fst (set_inv val self) = Inl OSError) = next_fails (pending_faults self)) \<and>
   (priv_pullup (snd (set_pullup val self)) = word_of_int (val AND 0xFF) \<and>
    (fst (set_pullup val self) = Inl OSError) = next_fails (pending_faults self)) \<and>
   (priv_interrupt_enable (snd (set_interrupt_enable val self)) = word_of_int (val AND 0xFF) \<and>
    (fst (set_interrupt_enable val self) = Inl OSError) = next_fails (pending_faults self)) \<and>
   (priv_three_state (snd (set_three_state val self)) = word_of_int (val AND 0xFF) \<and>
    (fst (set_three_state val self) = Inl OSError) = next_fails (pending_faults self)) \<and>
   (priv_rising_edge_interrupt (snd (set_rising_edge_interrupt val self)) =
      word_of_int (val AND 0xFF) \<and>
    (fst (set_rising_edge_interrupt val self) = Inl OSError) =
      next_fails (pending_faults self)) \<and>
   (priv_falling_edge_interrupt (snd (set_falling_edge_interrupt val self)) =
      word_of_int (val AND 0xFF) \<and>
    (fst (set_falling_edge_interrupt val self) = Inl OSError) =
      next_fails (pending_faults self)) \<and>
   (priv_input_filter (snd (set_input_filter val self)) = word_of_int (val AND 0xFF) \<and>
    (fst (set_input_filter val self) = Inl OSError) = next_fails (pending_faults self))"
  using write_gpio_effect [of val self] set_iodir_effect [of val self]
    set_inv_effect [of val self] set_pullup_effect [of val self]
    set_interrupt_enable_effect [of val self] set_three_state_effect [of val self]
    set_rising_edge_interrupt_effect [of val self]
    set_falling_edge_interrupt_effect [of val self] set_input_filter_effect [of val self]
  by blast

text \<open>
  C1 as stated fails: on the controller whose next transaction is not acknowledged,
  \<^verbatim>\<open>write_gpio(0)\<close> raises \<^verbatim>\<open>OSError\<close>, and the OUTPUT shadow byte, 0xFF before the
  call, is 0x00 after it.
\<close>

theorem write_gpio_failed_write_changes_cache:
  "fst (write_gpio 0 controller_before_nack) = Inl OSError \<and>
   priv_output controller_before_nack = 0xFF \<and>
   priv_output (snd (write_gpio 0 controller_before_nack)) = 0x00 \<and>
   priv_output (snd (write_gpio 0 controller_before_nack)) \<noteq> priv_output controller_before_nack"
  by code_simp

subsection \<open>Construction\<close>

text \<open>
  C3: on a bus without faults the constructor succeeds; with \<^verbatim>\<open>reset\<close> it issues the
  ten writes CONFIGURATION=0xFF, INVERSION=0x00, OUTPUT=0xFF, PULLUP=0x00 (0xFF when
  \<^verbatim>\<open>p\<close> is set), INTERRUPT_ENABLE=0x00, THREE_STATE=0x00, INTERRUPT_STATUS=0x00,
  RISING_EDGE_INTERRUPT=0x00, FALLING_EDGE_INTERRUPT=0x00, INPUT_FILTER=0xFF in this
  order and then the nine reads; without \<^verbatim>\<open>reset\<close> it issues the nine reads only. Each
  of the nine shadow bytes then holds the chip register that was read.
\<close>

theorem XRA1200_init_transactions:
  assumes "faults bus = []"
  shows
    "fst (XRA1200_init bus address reset p) = Inr () \<and>
     traffic (snd (XRA1200_init bus address reset p)) =
       log bus @
       (if reset then
          [I2C_write [XRA1200_REGISTER_CONFIGURATION, 0xFF],
           I2C_write [XRA1200_REGISTER_INVERSION, 0x00],
           I2C_write [XRA1200_REGISTER_OUTPUT_PORT, 0xFF],
           I2C_write [XRA1200_REGISTER_PULLUP, if p then 0xFF else 0x00],
           I2C_write [XRA1200_REGISTER_INTERRUPT_ENABLE, 0x00],
           I2C_write [XRA1200_REGISTER_THREE_STATE, 0x00],
           I2C_write [XRA1200_REGISTER_INTERRUPT_STATUS, 0x00],
           I2C_write [XRA1200_REGISTER_RISING_EDGE_INTERRUPT, 0x00],
           I2C_write [XRA1200_REGISTER_FALLING_EDGE_INTERRUPT, 0x00],
           I2C_write [XRA1200_REGISTER_INPUT_FILTER, 0xFF]]
        else []) @
       [I2C_write_then_readinto [XRA1200_REGISTER_OUTPUT_PORT] 1,
        I2C_write_then_readinto [XRA1200_REGISTER_INVERSION] 1,
        I2C_write_then_readinto [XRA1200_REGISTER_CONFIGURATION] 1,
        I2C_write_then_readinto [XRA1200_REGISTER_PULLUP] 1,
        I2C_write_then_readinto [XRA1200_REGISTER_INTERRUPT_ENABLE] 1,
        I2C_write_then_readinto [XRA1200_REGISTER_THREE_STATE] 1,
        I2C_write_then_readinto [XRA1200_REGISTER_RISING_EDGE_INTERRUPT] 1,
        I2C_write_then_readinto [XRA1200_REGISTER_FALLING_EDGE_INTERRUPT] 1,
        I2C_write_then_readinto [XRA1200_REGISTER_INPUT_FILTER] 1] \<and>
     priv_output (snd (XRA1200_init bus address reset p)) =
       chip (snd (XRA1200_init bus address reset p)) XRA1200_REGISTER_OUTPUT_PORT \<and>
     priv_inversion (snd (XRA1200_init bus address reset p)) =
       chip (snd (XRA1200_init bus address reset p)) XRA1200_REGISTER_INVERSION \<and>
     priv_configuration (snd (XRA1200_init bus address reset p)) =
       chip (snd (XRA1200_init bus address reset p)) XRA1200_REGISTER_CONFIGURATION \<and>
     priv_pullup (snd (XRA1200_init bus address reset p)) =
       chip (snd (XRA1200_init bus address reset p)) XRA1200_REGISTER_PULLUP \<and>
     priv_interrupt_enable (snd (XRA1200_init bus address reset p)) =
       chip (snd (XRA1200_init bus address reset p)) XRA1200_REGISTER_INTERRUPT_ENABLE \<and>
     priv_three_state (snd (XRA1200_init bus address reset p)) =
       chip (snd (XRA1200_init bus address reset p)) XRA1200_REGISTER_THREE_STATE \<and>
     priv_rising_edge_interrupt (snd (XRA1200_init bus address reset p)) =
       chip (snd (XRA1200_init bus address reset p)) XRA1200_REGISTER_RISING_EDGE_INTERRUPT \<and>
     priv_falling_edge_interrupt (snd (XRA1200_init bus address reset p)) =
       chip (snd (XRA1200_init bus address reset p)) XRA1200_REGISTER_FALLING_EDGE_INTERRUPT \<and>
     priv_input_filter (snd (XRA1200_init bus address reset p)) =
       chip (snd (XRA1200_init bus address reset p)) XRA1200_REGISTER_INPUT_FILTER"
  using assms
  by (simp add: XRA1200_init_def action_defs Let_def register_defs chip_write_def chip_read_def)

text \<open>The constructor on the quiet bus, with reset and without the P variant, and
  without reset.\<close>

theorem XRA1200_init_transactions_witness:
  "faults quiet_bus = [] \<and>
   fst (XRA1200_init quiet_bus 0x20 True False) = Inr () \<and>
   traffic (snd (XRA1200_init quiet_bus 0x20 True False)) =
     [I2C_write [0x03, 0xFF], I2C_write [0x02, 0x00], I2C_write [0x01, 0xFF],
      I2C_write [0x04, 0x00], I2C_write [0x05, 0x00], I2C_write [0x06, 0x00],
      I2C_write [0x07, 0x00], I2C_write [0x08, 0x00], I2C_write [0x09, 0x00],
      I2C_write [0x0A, 0xFF],
      I2C_write_then_readinto [0x01] 1, I2C_write_then_readinto [0x02] 1,
      I2C_write_then_readinto [0x03] 1, I2C_write_then_readinto [0x04] 1,
      I2C_write_then_readinto [0x05] 1, I2C_write_then_readinto [0x06] 1,
      I2C_write_then_readinto [0x08] 1, I2C_write_then_readinto [0x09] 1,
      I2C_write_then_readinto [0x0A] 1] \<and>
   traffic (snd (XRA1200_init quiet_bus 0x20 False False)) =
     [I2C_write_then_readinto [0x01] 1, I2C_write_then_readinto [0x02] 1,
      I2C_write_then_readinto [0x03] 1, I2C_write_then_readinto [0x04] 1,
      I2C_write_then_readinto [0x05] 1, I2C_write_then_readinto [0x06] 1,
      I2C_write_then_readinto [0x08] 1, I2C_write_then_readinto [0x09] 1,
      I2C_write_then_readinto [0x0A] 1]"
proof -
  have q: "faults quiet_bus = []"
    by (simp add: quiet_bus_def)
  have l: "log quiet_bus = []"
    by (simp add: quiet_bus_def)
  show ?thesis
    using q XRA1200_init_transactions [OF q, of "0x20" True False]
      XRA1200_init_transactions [OF q, of "0x20" False False]
    by (simp add: l register_defs)
qed

subsection \<open>Rejected arguments\<close>

text \<open>
  C7: assigning the \<^verbatim>\<open>direction\<close> property a value that is neither \<^verbatim>\<open>INPUT\<close> nor
  \<^verbatim>\<open>OUTPUT\<close> raises \<^verbatim>\<open>ValueError\<close> and leaves the controller exactly as it was: no
  transaction is issued, and the chip's CONFIGURATION register and its shadow byte are
  unchanged.
\<close>

theorem direction_setter_rejects_other_values:
  assumes "val \<noteq> Direction_object INPUT" and "val \<noteq> Direction_object OUTPUT"
  shows "direction_setter d val self = (Inl ValueError, self)"
  using assms by (simp add: direction_setter_def raises_def)

theorem direction_setter_rejects_other_values_witness:
  "Other_object \<noteq> Direction_object INPUT \<and> Other_object \<noteq> Direction_object OUTPUT \<and>
   direction_setter (DigitalInOut_init 3) Other_object controller_after_reset =
     (Inl ValueError, controller_after_reset)"
  using direction_setter_rejects_other_values
    [of Other_object "DigitalInOut_init 3" controller_after_reset]
  by simp

text \<open>
  C8: \<^verbatim>\<open>get_pin(pin)\<close> with \<^verbatim>\<open>pin\<close> outside 0..7 fails the range assertion
  (\<^verbatim>\<open>AssertionError\<close>) and leaves the controller as it was, so nothing is sent on the
  bus; with \<^verbatim>\<open>pin\<close> in 0..7 it returns a handle whose pin number is \<^verbatim>\<open>pin\<close>, again
  without touching the controller.
\<close>

theorem get_pin_range:
  "(pin < 0 \<or> 7 < pin \<longrightarrow> get_pin pin self = (Inl AssertionError, self)) \<and>
   (0 \<le> pin \<and> pin \<le> 7 \<longrightarrow>
      get_pin pin self = (Inr (DigitalInOut_init pin), self) \<and>
      priv_pin (DigitalInOut_init pin) = pin)"
  by (auto simp add: get_pin_def returns_def raises_def DigitalInOut_init_def)

theorem get_pin_range_witness:
  "get_pin 8 controller_after_reset = (Inl AssertionError, controller_after_reset) \<and>
   get_pin (- 1) controller_after_reset = (Inl AssertionError, controller_after_reset) \<and>
   get_pin 3 controller_after_reset = (Inr (DigitalInOut_init 3), controller_after_reset) \<and>
   priv_pin (DigitalInOut_init 3) = 3"
  using get_pin_range [of 8 controller_after_reset]
    get_pin_range [of "- 1" controller_after_reset]
    get_pin_range [of 3 controller_after_reset]
  by simp

text \<open>
  C10: \<^verbatim>\<open>write_pin(pin, val)\<close> raises \<^verbatim>\<open>AttributeError\<close> for every pin and value,
  because the lookup of \<^verbatim>\<open>self.output\<close> finds neither an instance attribute nor a class
  attribute of that name; the controller is left as it was, so no write is issued and the
  OUTPUT shadow byte and the chip are unchanged.
\<close>

theorem write_pin_raises_AttributeError:
  "write_pin pin val self = (Inl AttributeError, self)"
  by (simp add: write_pin_def XRA1200_getattr_def XRA1200_instance_dict_def
      XRA1200_class_dict_def action_defs)

subsection \<open>The pin handle\<close>

text \<open>
  What \<^verbatim>\<open>switch_to_input\<close> and \<^verbatim>\<open>switch_to_output\<close> send for a pin in 0..7. The
  CONFIGURATION byte is computed from \<^verbatim>\<open>(c & (1 << pin)) >> pin\<close>, the pin's own bit
  moved to position 0, not from the shadow byte \<^verbatim>\<open>c\<close>: the byte written is that 0/1
  flag with bit \<^verbatim>\<open>pin\<close> set, respectively cleared.
\<close>

lemma switch_to_input_writes:
  assumes "0 \<le> priv_pin d" and "priv_pin d \<le> 7"
  shows "traffic (snd (switch_to_input d self)) =
           traffic self @
           [I2C_write [XRA1200_REGISTER_CONFIGURATION,
              set_bit (nat (priv_pin d))
                (of_bool (bit (priv_configuration self) (nat (priv_pin d))))]]"
proof -
  have n: "nat (priv_pin d) < 8" using assms by simp
  show ?thesis
    using assms(1)
    by (simp add: switch_to_input_def set_iodir_def py_lshift_ok
        py_rshift_ok action_defs Let_def pick_bit_split flag_or_bit [OF n])
qed

lemma switch_to_output_writes:
  assumes "0 \<le> priv_pin d" and "priv_pin d \<le> 7" and "\<not> next_fails (pending_faults self)"
  shows "traffic (snd (switch_to_output d v self)) =
           traffic self @
           [I2C_write [XRA1200_REGISTER_OUTPUT_PORT,
              if v then set_bit (nat (priv_pin d)) (priv_output self)
              else unset_bit (nat (priv_pin d)) (priv_output self)],
            I2C_write [XRA1200_REGISTER_CONFIGURATION,
              unset_bit (nat (priv_pin d))
                (of_bool (bit (priv_configuration self) (nat (priv_pin d))))]]"
proof -
  have n: "nat (priv_pin d) < 8" using assms by simp
  show ?thesis
    using assms(1,3)
    by (simp add: switch_to_output_def get_iodir_def set_iodir_def write_gpio_def py_lshift_ok
        py_rshift_ok action_defs Let_def or_bit_byte [OF n] and_not_bit_byte pick_bit_split
        flag_and_not_bit)
qed

text \<open>
  C2 does not hold of the code. On the controller as the constructor leaves it after a
  reset, the CONFIGURATION shadow byte is 0xFF. \<^verbatim>\<open>switch_to_input()\<close> on pin 3 writes
  CONFIGURATION = 0x09, where the shadow byte with bit 3 set is 0xFF;
  \<^verbatim>\<open>switch_to_output(False)\<close> on pin 3 writes OUTPUT = 0xF7 and then
  CONFIGURATION = 0x01, where the shadow byte with bit 3 cleared is 0xF7. The bits of
  the other pins are not kept.
\<close>

theorem switch_to_input_output_overwrite_configuration:
  "priv_configuration controller_after_reset = 0xFF \<and>
   traffic (snd (switch_to_input (DigitalInOut_init 3) controller_after_reset)) =
     traffic controller_after_reset @ [I2C_write [XRA1200_REGISTER_CONFIGURATION, 0x09]] \<and>
   set_bit 3 (0xFF :: byte) = 0xFF \<and>
   traffic (snd (switch_to_output (DigitalInOut_init 3) False controller_after_reset)) =
     traffic controller_after_reset @
     [I2C_write [XRA1200_REGISTER_OUTPUT_PORT, 0xF7],
      I2C_write [XRA1200_REGISTER_CONFIGURATION, 0x01]] \<and>
   unset_bit 3 (0xFF :: byte) = 0xF7"
  by code_simp

text \<open>
  C4: for a pin in 0..7, \<^verbatim>\<open>switch_to_output(True)\<close> first issues the write of the
  OUTPUT register, whose byte is the OUTPUT shadow byte with the pin's bit set, and only
  then the write of the CONFIGURATION register, whose byte has the pin's bit clear. If
  the bus fails the OUTPUT write, the CONFIGURATION write is not issued at all.
\<close>

theorem switch_to_output_value_before_direction:
  assumes "0 \<le> priv_pin d" and "priv_pin d \<le> 7"
  shows "traffic (snd (switch_to_output d True self)) =
           traffic self @
           (if next_fails (pending_faults self) then
              [I2C_write [XRA1200_REGISTER_OUTPUT_PORT,
                 set_bit (nat (priv_pin d)) (priv_output self)]]
            else
              [I2C_write [XRA1200_REGISTER_OUTPUT_PORT,
                 set_bit (nat (priv_pin d)) (priv_output self)],
               I2C_write [XRA1200_REGISTER_CONFIGURATION,
                 unset_bit (nat (priv_pin d))
                   (of_bool (bit (priv_configuration self) (nat (priv_pin d))))]]) \<and>
         bit (set_bit (nat (priv_pin d)) (priv_output self)) (nat (priv_pin d)) \<and>
         \<not> bit (unset_bit (nat (priv_pin d))
                  (of_bool (bit (priv_configuration self) (nat (priv_pin d)))) :: byte)
              (nat (priv_pin d))"
proof -
  have n: "nat (priv_pin d) < 8" using assms by simp
  show ?thesis
    using assms(1)
    by (simp add: switch_to_output_def get_iodir_def set_iodir_def write_gpio_def py_lshift_ok
        py_rshift_ok action_defs Let_def or_bit_byte [OF n] and_not_bit_byte pick_bit_split
        flag_and_not_bit bit_simps n)
qed

text \<open>Pin 3 of the controller after reset: OUTPUT = 0xFF is sent before
  CONFIGURATION = 0x01.\<close>

theorem switch_to_output_value_before_direction_witness:
  "0 \<le> priv_pin (DigitalInOut_init 3) \<and> priv_pin (DigitalInOut_init 3) \<le> 7 \<and>
   traffic (snd (switch_to_output (DigitalInOut_init 3) True controller_after_reset)) =
     traffic controller_after_reset @
     [I2C_write [XRA1200_REGISTER_OUTPUT_PORT, 0xFF],
      I2C_write [XRA1200_REGISTER_CONFIGURATION, 0x01]]"
proof -
  have a: "0 \<le> priv_pin (DigitalInOut_init 3)" and b: "priv_pin (DigitalInOut_init 3) \<le> 7"
    using pin_3 by simp_all
  have n: "nat (priv_pin (DigitalInOut_init 3)) = 3"
    by (simp add: DigitalInOut_init_def)
  have u: "unset_bit 3 (1 :: byte) = 1"
    by code_simp
  show ?thesis
    using switch_to_output_value_before_direction [OF a b, of controller_after_reset]
    by (simp add: a b n u controller_after_reset_fields)
qed

text \<open>
  C5: for a pin in 0..7 and a boolean \<open>v\<close>, assigning \<open>v\<close> to the \<^verbatim>\<open>pullup\<close> property
  issues exactly one transaction, the write of the PULLUP register with the pin's bit
  set or cleared, and reading the property afterwards returns \<open>v\<close> and leaves the
  controller, and with it the transaction log, exactly as the setter left it.
\<close>

theorem pullup_roundtrip:
  assumes "0 \<le> priv_pin d" and "priv_pin d \<le> 7"
  shows "traffic (snd (pullup_setter d v self)) =
           traffic self @
           [I2C_write [XRA1200_REGISTER_PULLUP,
              if v then set_bit (nat (priv_pin d)) (priv_pullup self)
              else unset_bit (nat (priv_pin d)) (priv_pullup self)]] \<and>
         pullup d (snd (pullup_setter d v self)) = (Inr v, snd (pullup_setter d v self))"
proof -
  have n: "nat (priv_pin d) < 8" using assms by simp
  show ?thesis
    using assms(1)
    by (simp add: pullup_setter_def pullup_def get_pullup_def set_pullup_def py_lshift_ok
        action_defs Let_def or_bit_byte [OF n] and_not_bit_byte test_bit_pos_power bit_simps n)
qed

theorem pullup_roundtrip_witness:
  "0 \<le> priv_pin (DigitalInOut_init 3) \<and> priv_pin (DigitalInOut_init 3) \<le> 7 \<and>
   traffic (snd (pullup_setter (DigitalInOut_init 3) True controller_after_reset)) =
     traffic controller_after_reset @ [I2C_write [XRA1200_REGISTER_PULLUP, 0x08]] \<and>
   fst (pullup (DigitalInOut_init 3)
         (snd (pullup_setter (DigitalInOut_init 3) True controller_after_reset))) = Inr True"
proof -
  have a: "0 \<le> priv_pin (DigitalInOut_init 3)" and b: "priv_pin (DigitalInOut_init 3) \<le> 7"
    using pin_3 by simp_all
  have n: "nat (priv_pin (DigitalInOut_init 3)) = 3"
    by (simp add: DigitalInOut_init_def)
  show ?thesis
    using pullup_roundtrip [OF a b, of True controller_after_reset]
    by (simp add: a b n controller_after_reset_fields)
qed

text \<open>
  C6: for a pin in 0..7, assigning \<^verbatim>\<open>INPUT\<close> to the \<^verbatim>\<open>direction\<close> property writes the
  CONFIGURATION shadow byte with the pin's bit set to the CONFIGURATION register, and
  assigning \<^verbatim>\<open>OUTPUT\<close> writes it with the pin's bit cleared; the shadow byte takes that
  value, and so does the chip register when the bus does not fail the write. The getter
  returns \<^verbatim>\<open>INPUT\<close> when the pin's bit of the shadow byte is 1 and \<^verbatim>\<open>OUTPUT\<close> when it
  is 0, without touching the controller.
\<close>

theorem direction_bit_convention:
  assumes "0 \<le> priv_pin d" and "priv_pin d \<le> 7"
  shows "(traffic (snd (direction_setter d (Direction_object INPUT) self)) =
            traffic self @
            [I2C_write [XRA1200_REGISTER_CONFIGURATION,
               set_bit (nat (priv_pin d)) (priv_configuration self)]] \<and>
          priv_configuration (snd (direction_setter d (Direction_object INPUT) self)) =
            set_bit (nat (priv_pin d)) (priv_configuration self) \<and>
          (\<not> next_fails (pending_faults self) \<longrightarrow>
             fst (direction_setter d (Direction_object INPUT) self) = Inr () \<and>
             chip (snd (direction_setter d (Direction_object INPUT) self))
               XRA1200_REGISTER_CONFIGURATION =
             set_bit (nat (priv_pin d)) (priv_configuration self))) \<and>
         (traffic (snd (direction_setter d (Direction_object OUTPUT) self)) =
            traffic self @
            [I2C_write [XRA1200_REGISTER_CONFIGURATION,
               unset_bit (nat (priv_pin d)) (priv_configuration self)]] \<and>
          priv_configuration (snd (direction_setter d (Direction_object OUTPUT) self)) =
            unset_bit (nat (priv_pin d)) (priv_configuration self) \<and>
          (\<not> next_fails (pending_faults self) \<longrightarrow>
             fst (direction_setter d (Direction_object OUTPUT) self) = Inr () \<and>
             chip (snd (direction_setter d (Direction_object OUTPUT) self))
               XRA1200_REGISTER_CONFIGURATION =
             unset_bit (nat (priv_pin d)) (priv_configuration self))) \<and>
         direction d self =
           (Inr (if bit (priv_configuration self) (nat (priv_pin d)) then INPUT else OUTPUT),
            self)"
proof -
  have n: "nat (priv_pin d) < 8" using assms by simp
  show ?thesis
    using assms(1)
    by (simp add: direction_setter_def direction_def get_iodir_def set_iodir_def py_lshift_ok
        py_rshift_ok action_defs Let_def or_bit_byte [OF n] and_not_bit_byte pick_bit_split
        chip_write_def)
qed

text \<open>Pin 3 of the controller after reset (all pins inputs): the getter reports
  \<^verbatim>\<open>INPUT\<close>; assigning \<^verbatim>\<open>OUTPUT\<close> writes 0xF7, and the chip register then holds 0xF7.\<close>

theorem direction_bit_convention_witness:
  "0 \<le> priv_pin (DigitalInOut_init 3) \<and> priv_pin (DigitalInOut_init 3) \<le> 7 \<and>
   \<not> next_fails (pending_faults controller_after_reset) \<and>
   fst (direction (DigitalInOut_init 3) controller_after_reset) = Inr INPUT \<and>
   traffic (snd (direction_setter (DigitalInOut_init 3) (Direction_object OUTPUT)
                  controller_after_reset)) =
     traffic controller_after_reset @ [I2C_write [XRA1200_REGISTER_CONFIGURATION, 0xF7]] \<and>
   chip (snd (direction_setter (DigitalInOut_init 3) (Direction_object OUTPUT)
               controller_after_reset)) XRA1200_REGISTER_CONFIGURATION = 0xF7 \<and>
   traffic (snd (direction_setter (DigitalInOut_init 3) (Direction_object INPUT)
                  controller_after_reset)) =
     traffic controller_after_reset @ [I2C_write [XRA1200_REGISTER_CONFIGURATION, 0xFF]]"
proof -
  have a: "0 \<le> priv_pin (DigitalInOut_init 3)" and b: "priv_pin (DigitalInOut_init 3) \<le> 7"
    using pin_3 by simp_all
  have n: "nat (priv_pin (DigitalInOut_init 3)) = 3"
    by (simp add: DigitalInOut_init_def)
  show ?thesis
    using direction_bit_convention [OF a b, of controller_after_reset]
    by (simp add: a b n controller_after_reset_fields)
qed

text \<open>
  C9: reading the \<^verbatim>\<open>interrupt_status\<close> property of a pin issues exactly one
  transaction, a read of the INTERRUPT_STATUS register. When the bus does not fail it,
  the value returned is the pin's bit of the chip register as it was (no shadow copy is
  involved), the chip register is zero afterwards, and a read of the property of any
  pin 0..7 that follows immediately returns \<^verbatim>\<open>False\<close>.
\<close>

theorem interrupt_status_is_consuming_live_read:
  assumes "0 \<le> priv_pin d"
  shows "traffic (snd (interrupt_status d self)) =
           traffic self @ [I2C_write_then_readinto [XRA1200_REGISTER_INTERRUPT_STATUS] 1] \<and>
         (\<not> next_fails (pending_faults self) \<longrightarrow>
            fst (interrupt_status d self) =
              Inr (bit (chip self XRA1200_REGISTER_INTERRUPT_STATUS) (nat (priv_pin d))) \<and>
            chip (snd (interrupt_status d self)) XRA1200_REGISTER_INTERRUPT_STATUS = 0 \<and>
            (\<forall>q\<in>{0..7}.
               \<not> next_fails (tl (pending_faults self)) \<longrightarrow>
               fst (interrupt_status (DigitalInOut_init q) (snd (interrupt_status d self))) =
                 Inr False))"
  using assms
  by (simp add: interrupt_status_def get_interrupt_status_def py_lshift_ok action_defs Let_def
      chip_read_def test_bit_pos_power DigitalInOut_init_def)

text \<open>On the chip with interrupts latched on pins 3 and 5, the read for pin 3 returns
  \<^verbatim>\<open>True\<close>, and the read for pin 5 that follows returns \<^verbatim>\<open>False\<close>.\<close>

theorem interrupt_status_is_consuming_live_read_witness:
  "0 \<le> priv_pin (DigitalInOut_init 3) \<and>
   \<not> next_fails (pending_faults controller_with_latched_interrupts) \<and>
   \<not> next_fails (tl (pending_faults controller_with_latched_interrupts)) \<and>
   chip controller_with_latched_interrupts XRA1200_REGISTER_INTERRUPT_STATUS = 0x28 \<and>
   fst (interrupt_status (DigitalInOut_init 3) controller_with_latched_interrupts) = Inr True \<and>
   (5::int) \<in> {0..7} \<and>
   fst (interrupt_status (DigitalInOut_init 5)
         (snd (interrupt_status (DigitalInOut_init 3) controller_with_latched_interrupts))) =
     Inr False"
proof -
  have a: "0 \<le> priv_pin (DigitalInOut_init 3)"
    using pin_3 by simp
  have n: "nat (priv_pin (DigitalInOut_init 3)) = 3"
    by (simp add: DigitalInOut_init_def)
  have e: "bit (0x28 :: byte) 3"
    by simp
  show ?thesis
    using interrupt_status_is_consuming_live_read [OF a, of controller_with_latched_interrupts]
    by (simp add: a n e controller_with_latched_interrupts_fields)
qed

end
